theory Spec2Isabelle
  imports Complex_Main "HOL-Library.Word"
begin

section \<open>Values, errors and effects of the importers\<close>

text \<open>
  The importers of \<^verbatim>\<open>io/importers.py\<close> return a triple: a two-dimensional field of
  floating-point numbers, a georeferencing dictionary and a metadata dictionary.

  A floating-point number is either not-a-number or the real number it denotes
  (rounding is not part of the model; the arithmetic of \<^verbatim>\<open>import_pgm\<close> on 8-bit
  samples is exact in binary64 anyway).
\<close>

datatype pyfloat = NaN | Num real

text \<open>The comparison \<^verbatim>\<open><=\<close> of floating-point numbers: false as soon as one side is NaN.\<close>

fun fle :: "pyfloat \<Rightarrow> pyfloat \<Rightarrow> bool" where
  "fle (Num a) (Num b) = (a \<le> b)"
| "fle _ _ = False"

text \<open>
  The exceptions the importers raise themselves, the ones of the built-in operations they
  use, and \<open>IOError\<close> for a failure of the file-access layer.
  \<open>Exception msg\<close> is \<^verbatim>\<open>raise Exception(msg)\<close>, \<open>ValueError msg\<close> is
  \<^verbatim>\<open>raise ValueError(msg)\<close> with the formatted message; \<open>ValueError_builtin\<close> is the
  \<^verbatim>\<open>ValueError\<close> of \<^verbatim>\<open>int()\<close>, of \<^verbatim>\<open>float()\<close> and of tuple unpacking.
  \<open>TimestampError\<close> is the failure of \<^verbatim>\<open>datetime.utcfromtimestamp\<close> on an instant outside
  the years 1 to 9999 (a \<^verbatim>\<open>ValueError\<close>, \<^verbatim>\<open>OverflowError\<close> or \<^verbatim>\<open>OSError\<close>, depending on
  the magnitude).
\<close>

datatype error =
    Exception string
  | ValueError string
  | ValueError_builtin
  | IndexError
  | KeyError string
  | TypeError
  | AttributeError string
  | UnboundLocalError string
  | UnicodeDecodeError
  | ZeroDivisionError
  | TimestampError
  | IOError string

text \<open>
  What a call does to the outside: files opened and closed, lines printed. A call returns
  the events in order, and either the exception that ended it or its value.
\<close>

datatype io_event = OpenFile string | CloseFile string | Print string

type_synonym 'a io = "io_event list \<times> (error + 'a)"

definition bind_io :: "'a io \<Rightarrow> ('a \<Rightarrow> 'b io) \<Rightarrow> 'b io" where
  "bind_io m k =
     (case m of
        (t, Inl e) \<Rightarrow> (t, Inl e)
      | (t, Inr a) \<Rightarrow> (case k a of (t', r) \<Rightarrow> (t @ t', r)))"

text \<open>A step with no effect on the outside.\<close>

definition pure_io :: "error + 'a \<Rightarrow> 'a io" where
  "pure_io r = ([], r)"

text \<open>The values of the metadata dictionary: a list of strings, an integer or a string.\<close>

datatype pyval = StrList "string list" | IntVal int | StrVal string

type_synonym metadata = "string \<rightharpoonup> pyval"

text \<open>\<^verbatim>\<open>d[k]\<close> raises \<^verbatim>\<open>KeyError\<close> on a missing key.\<close>

definition getitem :: "metadata \<Rightarrow> string \<Rightarrow> error + pyval" where
  "getitem d k = (case d k of None \<Rightarrow> Inl (KeyError k) | Some v \<Rightarrow> Inr v)"

text \<open>
  \<^verbatim>\<open>v[0]\<close>: the first string of a list, the first character of a string;
  \<^verbatim>\<open>IndexError\<close> when there is none, \<^verbatim>\<open>TypeError\<close> on an integer.
\<close>

fun item0 :: "pyval \<Rightarrow> error + string" where
  "item0 (StrList []) = Inl IndexError"
| "item0 (StrList (a # _)) = Inr a"
| "item0 (StrVal []) = Inl IndexError"
| "item0 (StrVal (c # _)) = Inr [c]"
| "item0 (IntVal _) = Inl TypeError"

text \<open>Iteration over a value: the strings of a list, the characters of a string.\<close>

fun elems :: "pyval \<Rightarrow> error + string list" where
  "elems (StrList xs) = Inr xs"
| "elems (StrVal s) = Inr (map (\<lambda>c. [c]) s)"
| "elems (IntVal _) = Inl TypeError"

text \<open>The georeferencing dictionary, with its eight keys.\<close>

record geodata =
  projection :: string
  x1 :: pyfloat
  y1 :: pyfloat
  x2 :: pyfloat
  y2 :: pyfloat
  xpixelsize :: pyfloat
  ypixelsize :: pyfloat
  yorigin :: string

text \<open>
  A dataset of the Rainfields3 product, as the importer reads it: the variables
  \<^verbatim>\<open>precipitation\<close> (a two-dimensional array), \<^verbatim>\<open>valid_time\<close> and \<^verbatim>\<open>start_time\<close>
  (instants, in whole seconds since the epoch) and \<^verbatim>\<open>proj\<close> (a variable whose attributes
  describe the projection). A variable that the file does not hold is \<open>None\<close>; so is an
  attribute that the projection variable does not have.
\<close>

record proj_var =
  grid_mapping_name :: "string option"
  longitude_of_central_meridian :: "pyfloat option"
  latitude_of_projection_origin :: "pyfloat option"
  standard_parallel :: "pyfloat list option"

record dataset =
  precipitation :: "pyfloat list list option"
  valid_time :: "int option"
  start_time :: "int option"
  proj :: "proj_var option"

text \<open>
  The runtime and the libraries the importers call:
  \<^item> the three flags that the guarded imports at the top of the module set;
  \<^item> \<open>stream name gz\<close>: the bytes read from the file \<open>name\<close>, through \<^verbatim>\<open>gzip.open\<close> when
    \<open>gz\<close> holds and through \<^verbatim>\<open>open\<close> otherwise, or the failure of the file-access layer;
  \<^item> \<open>text_readline b\<close>: the first \<^verbatim>\<open>readline()\<close> of a file object in text mode over the
    bytes \<open>b\<close>: a \<^verbatim>\<open>str\<close>, or the failure of the text layer on bytes that are not text
    in the encoding of the locale;
  \<^item> \<open>imread name gz\<close>: the 8-bit samples that \<^verbatim>\<open>matplotlib.pyplot.imread\<close> decodes;
  \<^item> \<open>Image_open name\<close>: the 8-bit indices that \<^verbatim>\<open>PIL.Image.open\<close> decodes;
  \<^item> \<open>Dataset name\<close>: the dataset that \<^verbatim>\<open>netCDF4.Dataset\<close> opens;
  \<^item> \<open>Proj def\<close>: the projection \<^verbatim>\<open>pyproj.Proj(def)\<close>, a function from longitude and
    latitude to projected coordinates;
  \<^item> \<open>py_float\<close> and \<open>py_str\<close>: the built-in conversions \<^verbatim>\<open>float(s)\<close> of a string and
    \<^verbatim>\<open>str(x)\<close> of a floating-point number.
\<close>

record world =
  pyproj_imported :: bool
  pil_imported :: bool
  netcdf4_imported :: bool
  stream :: "string \<Rightarrow> bool \<Rightarrow> error + string"
  text_readline :: "string \<Rightarrow> error + string"
  imread :: "string \<Rightarrow> bool \<Rightarrow> error + 8 word list list"
  Image_open :: "string \<Rightarrow> error + 8 word list list"
  Dataset :: "string \<Rightarrow> error + dataset"
  Proj :: "string \<Rightarrow> error + (pyfloat \<Rightarrow> pyfloat \<Rightarrow> pyfloat \<times> pyfloat)"
  py_float :: "string \<Rightarrow> error + pyfloat"
  py_str :: "pyfloat \<Rightarrow> string"

section \<open>Strings and lines\<close>

abbreviation nl :: char where "nl \<equiv> CHR 0x0A"

text \<open>
  \<^verbatim>\<open>f.readline()\<close> on the bytes that are left: the bytes up to and including the next
  newline, or all of them when there is no newline; the empty string at end of stream.
  The second component is what is left after the call.
\<close>

fun readline :: "string \<Rightarrow> string \<times> string" where
  "readline [] = ([], [])"
| "readline (c # cs) =
     (if c = nl then ([c], cs)
      else (case readline cs of (l, r) \<Rightarrow> (c # l, r)))"

text \<open>
  \<^verbatim>\<open>bytes.decode()\<close>, for ASCII headers: the identity on bytes below 128. A line with a
  byte from 128 on is reported as \<^verbatim>\<open>UnicodeDecodeError\<close>, which is what Python raises
  unless the bytes happen to be well-formed UTF-8; headers with such sequences are outside
  the model.
\<close>

definition ascii :: "string \<Rightarrow> bool" where
  "ascii b \<longleftrightarrow> (\<forall>c \<in> set b. (of_char c :: nat) < 128)"

definition decode :: "string \<Rightarrow> error + string" where
  "decode b = (if ascii b then Inr b else Inl UnicodeDecodeError)"

text \<open>\<^verbatim>\<open>f.readline().decode()\<close>: the next line as text, and the bytes left.\<close>

definition readline_decode :: "string \<Rightarrow> error + (string \<times> string)" where
  "readline_decode f =
     (case readline f of (b, f') \<Rightarrow>
        (case decode b of Inl e \<Rightarrow> Inl e | Inr l \<Rightarrow> Inr (l, f')))"

text \<open>
  The ASCII characters that \<^verbatim>\<open>str.strip()\<close> treats as whitespace: the six of C, and the
  four separators from 0x1C to 0x1F.
\<close>

definition is_space :: "char \<Rightarrow> bool" where
  "is_space c \<longleftrightarrow>
     c \<in> set [CHR 0x09, CHR 0x0A, CHR 0x0B, CHR 0x0C, CHR 0x0D,
              CHR 0x1C, CHR 0x1D, CHR 0x1E, CHR 0x1F, CHR '' '']"

definition strip :: "string \<Rightarrow> string" where
  "strip s = rev (dropWhile is_space (rev (dropWhile is_space s)))"

text \<open>
  \<^verbatim>\<open>s.split(' ')\<close>: the pieces between single spaces; two spaces in a row give an empty
  piece, and the empty string gives one empty piece.
\<close>

fun split_sp :: "string \<Rightarrow> string list" where
  "split_sp [] = [[]]"
| "split_sp (c # cs) =
     (if c = CHR '' '' then [] # split_sp cs
      else (case split_sp cs of [] \<Rightarrow> [[c]] | w # ws \<Rightarrow> (c # w) # ws))"

text \<open>
  The characters that \<^verbatim>\<open>int()\<close> skips around the digits of ASCII text: tab, newline,
  vertical tab, form feed, carriage return and space. The separators from 0x1C to 0x1F,
  which \<^verbatim>\<open>strip()\<close> drops, are not among them: \<^verbatim>\<open>int()\<close> raises on them.
\<close>

definition is_int_space :: "char \<Rightarrow> bool" where
  "is_int_space c \<longleftrightarrow>
     c \<in> set [CHR 0x09, CHR 0x0A, CHR 0x0B, CHR 0x0C, CHR 0x0D, CHR '' '']"

definition strip_int :: "string \<Rightarrow> string" where
  "strip_int s = rev (dropWhile is_int_space (rev (dropWhile is_int_space s)))"

text \<open>
  \<^verbatim>\<open>int(s)\<close> on text: surrounding whitespace is dropped, one sign is allowed, then decimal
  digits, with single underscores between digits; anything else is a \<^verbatim>\<open>ValueError\<close>,
  and so is a literal of more than 4300 digits (the interpreter's default limit).
\<close>

definition is_digit :: "char \<Rightarrow> bool" where
  "is_digit c \<longleftrightarrow> 48 \<le> (of_char c :: nat) \<and> (of_char c :: nat) \<le> 57"

definition digit_val :: "char \<Rightarrow> int" where
  "digit_val c = int (of_char c) - 48"

fun valid_digits :: "string \<Rightarrow> bool" where
  "valid_digits [] = False"
| "valid_digits [c] = is_digit c"
| "valid_digits (c # d # r) =
     (is_digit c \<and> (if d = CHR ''_'' then valid_digits r else valid_digits (d # r)))"

definition digits_value :: "string \<Rightarrow> error + int" where
  "digits_value s =
     (let ds = filter (\<lambda>c. c \<noteq> CHR ''_'') s in
      if valid_digits s \<and> length ds \<le> 4300
      then Inr (foldl (\<lambda>a c. 10 * a + digit_val c) 0 ds)
      else Inl ValueError_builtin)"

definition py_int :: "string \<Rightarrow> error + int" where
  "py_int s =
     (case strip_int s of
        [] \<Rightarrow> Inl ValueError_builtin
      | c # r \<Rightarrow>
          if c = CHR ''-'' then map_sum id uminus (digits_value r)
          else if c = CHR ''+'' then digits_value r
          else digits_value (c # r))"

section \<open>The PGM importer: the header\<close>

text \<open>
  The first loop of \<^verbatim>\<open>_import_pgm_metadata\<close>,
  \<^verbatim>\<open>while l[0] != '#': l = f.readline().decode()\<close>,
  from the line \<open>l\<close> and the bytes \<open>f\<close> that are left. \<^verbatim>\<open>l[0]\<close> raises \<^verbatim>\<open>IndexError\<close> on
  the empty string, which \<^verbatim>\<open>readline\<close> returns at end of stream.
\<close>

function skip_to_comment :: "string \<Rightarrow> string \<Rightarrow> error + (string \<times> string)" where
  "skip_to_comment [] f = Inl IndexError"
| "skip_to_comment (c # cs) f =
     (if c \<noteq> CHR ''#'' then
        (case readline_decode f of
           Inl e \<Rightarrow> Inl e
         | Inr (l', f') \<Rightarrow> skip_to_comment l' f')
      else Inr (c # cs, f))"
  by pat_completeness auto

termination
proof (relation "measure (\<lambda>(l, f). length f + (if l = [] then 0 else 1))")
  show "wf (measure (\<lambda>(l, f). length f + (if l = [] then 0 else 1)))"
    by simp
next
  fix c :: char and cs f :: string and x :: "string \<times> string" and l' f' :: string
  assume rd: "readline_decode f = Inr x" and x: "(l', f') = x"
  have shrink: "l = [] \<and> r = [] \<and> g = [] \<or> length r < length g"
    if "readline g = (l, r)" for g l r
    using that by (induction g arbitrary: l r) (auto split: if_splits prod.splits)
  from rd x have "readline f = (l', f')"
    by (auto simp: readline_decode_def decode_def split: prod.splits if_splits)
  from shrink [OF this]
  show "((l', f'), (c # cs, f)) \<in> measure (\<lambda>(l, f). length f + (if l = [] then 0 else 1))"
    by auto
qed

text \<open>
  The body of the second loop on the text \<open>cs\<close> after the \<^verbatim>\<open>#\<close> of a comment line:
  \<^verbatim>\<open>x = l[1:].strip().split(' ')\<close>, and \<^verbatim>\<open>metadata[x[0]] = x[1:]\<close> when \<open>x\<close> has at
  least two pieces.
\<close>

definition store_comment :: "metadata \<Rightarrow> string \<Rightarrow> metadata" where
  "store_comment md cs =
     (let x = split_sp (strip cs) in
      if length x \<ge> 2 then md(hd x \<mapsto> StrList (tl x)) else md)"

text \<open>
  The second loop, over the comment lines:
  \<^verbatim>\<open>while l[0] == '#': x = l[1:].strip().split(' ') ...\<close>.
  A line with at least two pieces stores the pieces after the first under the first; a
  line with fewer stores nothing. Both branches read the next line.
\<close>

function read_comments :: "metadata \<Rightarrow> string \<Rightarrow> string \<Rightarrow> error + (metadata \<times> string \<times> string)" where
  "read_comments md [] f = Inl IndexError"
| "read_comments md (c # cs) f =
     (if c = CHR ''#'' then
        (case readline_decode f of
           Inl e \<Rightarrow> Inl e
         | Inr (l', f') \<Rightarrow> read_comments (store_comment md cs) l' f')
      else Inr (md, c # cs, f))"
  by pat_completeness auto
termination
proof (relation "measure (\<lambda>(md, l, f). length f + (if l = [] then 0 else 1))")
  show "wf (measure (\<lambda>(md, l, f). length f + (if l = [] then 0 else 1)))"
    by simp
next
  fix md :: metadata and c :: char and cs f :: string
    and x :: "string \<times> string" and l' f' :: string
  assume rd: "readline_decode f = Inr x" and x: "(l', f') = x"
  have shrink: "l = [] \<and> r = [] \<and> g = [] \<or> length r < length g"
    if "readline g = (l, r)" for g l r
    using that by (induction g arbitrary: l r) (auto split: if_splits prod.splits)
  from rd x have "readline f = (l', f')"
    by (auto simp: readline_decode_def decode_def split: prod.splits if_splits)
  from shrink [OF this]
  show "((store_comment md cs, l', f'), (md, c # cs, f))
        \<in> measure (\<lambda>(md, l, f). length f + (if l = [] then 0 else 1))"
    by auto
qed

text \<open>
  The three constant entries that \<^verbatim>\<open>_import_pgm_metadata\<close> stores last, over whatever the
  header held under the same keys.
\<close>

definition pgm_constants :: "metadata \<Rightarrow> metadata" where
  "pgm_constants md =
     md(''institution'' \<mapsto> StrVal ''Finnish Meteorological Institute'',
        ''timestep'' \<mapsto> IntVal 5,
        ''unit'' \<mapsto> StrVal ''dBZ'')"

text \<open>
  The header of an open stream: the first line, the two loops, then one more line, read
  as the integer \<^verbatim>\<open>missingval\<close>.
\<close>

definition parse_pgm_header :: "string \<Rightarrow> error + metadata" where
  "parse_pgm_header f0 =
     (case readline_decode f0 of
        Inl e \<Rightarrow> Inl e
      | Inr (l0, f1) \<Rightarrow>
          (case skip_to_comment l0 f1 of
             Inl e \<Rightarrow> Inl e
           | Inr (l1, f2) \<Rightarrow>
               (case read_comments Map.empty l1 f2 of
                  Inl e \<Rightarrow> Inl e
                | Inr (md, l2, f3) \<Rightarrow>
                    (case readline_decode f3 of
                       Inl e \<Rightarrow> Inl e
                     | Inr (l3, f4) \<Rightarrow>
                         (case py_int l3 of
                            Inl e \<Rightarrow> Inl e
                          | Inr n \<Rightarrow> Inr (md(''missingval'' \<mapsto> IntVal n)))))))"

text \<open>
  The first \<^verbatim>\<open>f.readline().decode()\<close> on a file that \<^verbatim>\<open>open(filename, 'r')\<close> opened, in
  text mode: \<^verbatim>\<open>readline\<close> fails in the text layer, or it returns a \<^verbatim>\<open>str\<close>, which has no
  method \<^verbatim>\<open>decode\<close>. Either way the statement raises.
\<close>

definition text_mode_error :: "world \<Rightarrow> string \<Rightarrow> error" where
  "text_mode_error w f =
     (case text_readline w f of Inl e \<Rightarrow> e | Inr l \<Rightarrow> AttributeError ''decode'')"

text \<open>
  \<^verbatim>\<open>_import_pgm_metadata(filename, gzipped)\<close>. The file is opened first: in text mode
  without \<^verbatim>\<open>gzipped\<close>, and then the first statement after it raises; by \<^verbatim>\<open>gzip.open\<close>
  with \<^verbatim>\<open>gzipped\<close>, and then the stream yields bytes and the header is parsed. The file
  is closed only when the parse succeeded.
\<close>

definition import_pgm_metadata :: "world \<Rightarrow> string \<Rightarrow> bool \<Rightarrow> metadata io" where
  "import_pgm_metadata w filename gzipped =
     bind_io ([OpenFile filename], stream w filename gzipped) (\<lambda>f.
       if \<not> gzipped then pure_io (Inl (text_mode_error w f))
       else
         (case parse_pgm_header f of
            Inl e \<Rightarrow> pure_io (Inl e)
          | Inr md \<Rightarrow> ([CloseFile filename], Inr (pgm_constants md))))"

text \<open>
  The lines of a stream, as successive calls of \<^verbatim>\<open>readline\<close> return them until the
  empty string.
\<close>

function lines_of :: "string \<Rightarrow> string list" where
  "lines_of [] = []"
| "lines_of (c # cs) = (case readline (c # cs) of (l, r) \<Rightarrow> l # lines_of r)"
  by pat_completeness auto
termination
proof -
  have shrink: "length b \<le> length g" if "readline g = (a, b)" for g a b
    using that by (induction g arbitrary: a b) (auto split: if_splits prod.splits)
  show ?thesis
    by (relation "measure length")
       (auto dest!: shrink simp: le_imp_less_Suc split: if_splits prod.splits)
qed

text \<open>A comment line of the header starts with \<^verbatim>\<open>#\<close>.\<close>

definition is_comment :: "string \<Rightarrow> bool" where
  "is_comment l \<longleftrightarrow> (case l of [] \<Rightarrow> False | c # _ \<Rightarrow> c = CHR ''#'')"

text \<open>
  A complete line of header text: ASCII bytes, ended by the only newline it holds.
\<close>

definition text_line :: "string \<Rightarrow> bool" where
  "text_line l \<longleftrightarrow> l \<noteq> [] \<and> last l = nl \<and> nl \<notin> set (butlast l) \<and> ascii l"

text \<open>
  The first line that is not a comment after the first block of comment lines of a
  stream, when there is one.
\<close>

definition line_after_block :: "string \<Rightarrow> string option" where
  "line_after_block s =
     (case dropWhile is_comment (dropWhile (Not \<circ> is_comment) (lines_of s)) of
        [] \<Rightarrow> None
      | l # _ \<Rightarrow> Some l)"

text \<open>The entry \<^verbatim>\<open>missingval\<close> of the metadata that a call returned.\<close>

definition stored_sentinel :: "metadata io \<Rightarrow> error + pyval option" where
  "stored_sentinel r = map_sum id (\<lambda>md. md ''missingval'') (snd r)"

text \<open>The dictionary that the second loop builds from the lines of a comment block.\<close>

definition header_entries :: "string list \<Rightarrow> metadata" where
  "header_entries block = foldl (\<lambda>md l. store_comment md (tl l)) Map.empty block"

section \<open>The PGM importer: georeferencing and samples\<close>

definition bind_err :: "error + 'a \<Rightarrow> ('a \<Rightarrow> error + 'b) \<Rightarrow> error + 'b" where
  "bind_err m k = (case m of Inl e \<Rightarrow> Inl e | Inr a \<Rightarrow> k a)"

text \<open>\<^verbatim>\<open>metadata[k][0]\<close>.\<close>

definition getitem0 :: "metadata \<Rightarrow> string \<Rightarrow> error + string" where
  "getitem0 d k = bind_err (getitem d k) item0"

text \<open>\<^verbatim>\<open>[float(v) for v in vs]\<close>: the first conversion that fails ends the loop.\<close>

fun float_all :: "world \<Rightarrow> string list \<Rightarrow> error + pyfloat list" where
  "float_all w [] = Inr []"
| "float_all w (v # vs) =
     bind_err (py_float w v) (\<lambda>x. bind_err (float_all w vs) (\<lambda>xs. Inr (x # xs)))"

text \<open>\<^verbatim>\<open>a, b = xs\<close> raises \<^verbatim>\<open>ValueError\<close> unless \<open>xs\<close> has exactly two elements.\<close>

fun unpack2 :: "'a list \<Rightarrow> error + ('a \<times> 'a)" where
  "unpack2 [a, b] = Inr (a, b)"
| "unpack2 _ = Inl ValueError_builtin"

text \<open>\<^verbatim>\<open>a, b = [float(v) for v in metadata[k]]\<close>.\<close>

definition float_pair :: "world \<Rightarrow> metadata \<Rightarrow> string \<Rightarrow> error + (pyfloat \<times> pyfloat)" where
  "float_pair w d k =
     bind_err (getitem d k) (\<lambda>v.
     bind_err (elems v) (\<lambda>vs.
     bind_err (float_all w vs) unpack2))"

text \<open>
  \<^verbatim>\<open>_import_pgm_geodata(metadata)\<close>, statement by statement: the check of the projection
  family, the projection definition, the two corners, the projection of the corners, the
  pixel sizes.
\<close>

definition import_pgm_geodata :: "world \<Rightarrow> metadata \<Rightarrow> error + geodata" where
  "import_pgm_geodata w metadata =
     bind_err (getitem0 metadata ''type'') (\<lambda>t.
     if t \<noteq> ''stereographic'' then Inl (ValueError (''unknown projection '' @ t))
     else
     bind_err (getitem0 metadata ''centrallongitude'') (\<lambda>lon_0.
     bind_err (getitem0 metadata ''centrallatitude'') (\<lambda>lat_0.
     bind_err (getitem0 metadata ''truelatitude'') (\<lambda>lat_ts.
     let projdef = ''+proj=stere '' @ '' +lon_0='' @ lon_0 @ ''E''
                   @ '' +lat_0='' @ lat_0 @ ''N''
                   @ '' +lat_ts='' @ lat_ts
                   @ '' +a=6371288'' @ '' +x_0=380886.310'' @ '' +y_0=3395677.920''
                   @ '' +no_defs''
     in
     bind_err (float_pair w metadata ''bottomleft'') (\<lambda>(ll_lon, ll_lat).
     bind_err (float_pair w metadata ''topright'') (\<lambda>(ur_lon, ur_lat).
     bind_err (Proj w projdef) (\<lambda>pr.
     case pr ll_lon ll_lat of (px1, py1) \<Rightarrow>
     case pr ur_lon ur_lat of (px2, py2) \<Rightarrow>
     bind_err (bind_err (getitem0 metadata ''metersperpixel_x'') (py_float w)) (\<lambda>xps.
     bind_err (bind_err (getitem0 metadata ''metersperpixel_y'') (py_float w)) (\<lambda>yps.
     Inr \<lparr> projection = projdef, x1 = px1, y1 = py1, x2 = px2, y2 = py2,
           xpixelsize = xps, ypixelsize = yps, yorigin = ''upper'' \<rparr>)))))))))"

text \<open>An arithmetic operation with a constant on a floating-point number: NaN stays NaN.\<close>

fun fmap :: "(real \<Rightarrow> real) \<Rightarrow> pyfloat \<Rightarrow> pyfloat" where
  "fmap g NaN = NaN"
| "fmap g (Num r) = Num (g r)"

text \<open>
  The four statements of \<^verbatim>\<open>import_pgm\<close> on one sample \<open>s\<close>:
  \<^verbatim>\<open>MASK = R == missingval\<close>, \<^verbatim>\<open>R = R.astype(float)\<close>, \<^verbatim>\<open>R[MASK] = np.nan\<close>,
  \<^verbatim>\<open>R = (R - 64.0) / 2.0\<close>.
\<close>

definition pgm_sample :: "int \<Rightarrow> 8 word \<Rightarrow> pyfloat" where
  "pgm_sample missingval s =
     (let mask = (uint s = missingval);
          r = Num (real_of_int (uint s));
          r = (if mask then NaN else r)
      in fmap (\<lambda>x. x / 2) (fmap (\<lambda>x. x - 64) r))"

text \<open>
  The comparison with \<^verbatim>\<open>metadata["missingval"]\<close>, which \<^verbatim>\<open>_import_pgm_metadata\<close> always
  stores as an integer; no other value reaches this point.
\<close>

fun pgm_field :: "pyval \<Rightarrow> 8 word list list \<Rightarrow> error + pyfloat list list" where
  "pgm_field (IntVal n) R = Inr (map (map (pgm_sample n)) R)"
| "pgm_field _ R = Inl TypeError"

text \<open>
  \<^verbatim>\<open>import_pgm(filename, gzipped)\<close>: the guard on \<^verbatim>\<open>pyproj\<close>, the header, the samples
  (a second access to the file), the georeferencing, the field.
\<close>

definition import_pgm :: "world \<Rightarrow> string \<Rightarrow> bool \<Rightarrow> (pyfloat list list \<times> geodata \<times> metadata) io" where
  "import_pgm w filename gzipped =
     (if \<not> pyproj_imported w then pure_io (Inl (Exception ''pyproj not imported''))
      else
        bind_io (import_pgm_metadata w filename gzipped) (\<lambda>metadata.
        bind_io ([OpenFile filename], imread w filename gzipped) (\<lambda>R.
        bind_io (pure_io (import_pgm_geodata w metadata)) (\<lambda>geodata.
        bind_io (pure_io (getitem metadata ''missingval'')) (\<lambda>mv.
        bind_io (pure_io (pgm_field mv R)) (\<lambda>R'.
        pure_io (Inr (R', geodata, metadata))))))))"

section \<open>The AQC importer\<close>

text \<open>The body of the loop that fills the lookup table, at index \<open>i\<close>.\<close>

definition lut_entry :: "nat \<Rightarrow> pyfloat" where
  "lut_entry i =
     (if i < 2 \<or> (i > 250 \<and> i < 255) then Num 0
      else if i = 255 then NaN
      else Num ((10 powr ((real i - 71.2) / 20) / 316) powr (1 / 1.5) * 60 / 5))"

text \<open>
  The table: \<^verbatim>\<open>lut = np.zeros(256)\<close>, then \<^verbatim>\<open>for i in range(256): lut[i] = ...\<close>.
\<close>

definition lut :: "pyfloat list" where
  "lut = fold (\<lambda>i t. t[i := lut_entry i]) [0..<256] (replicate 256 (Num 0))"

definition import_aqc_geodata :: geodata where
  "import_aqc_geodata =
     \<lparr> projection = ''+proj=somerc '' @ '' +lon_0=7.439583333333333''
                    @ '' +lat_0=46.95240555555556'' @ '' +k_0=1'' @ '' +x_0=600000''
                    @ '' +y_0=200000'' @ '' +ellps=bessel''
                    @ '' +towgs84=674.374,15.056,405.346,0,0,0,0'' @ '' +units=m''
                    @ '' +no_defs'',
       x1 = Num 255000, y1 = Num 160000, x2 = Num 965000, y2 = Num 480000,
       xpixelsize = Num 1000, ypixelsize = Num 1000, yorigin = ''upper'' \<rparr>"

definition aqc_metadata :: metadata where
  "aqc_metadata =
     [''institution'' \<mapsto> StrVal ''MeteoSwiss'', ''timestep'' \<mapsto> IntVal 5,
      ''unit'' \<mapsto> StrVal ''mm/h'']"

text \<open>
  \<^verbatim>\<open>import_aqc(filename)\<close>: the guard on \<^verbatim>\<open>PIL\<close>, the image, and \<^verbatim>\<open>R = lut[B]\<close>, the
  table entry at each 8-bit index.
\<close>

definition import_aqc :: "world \<Rightarrow> string \<Rightarrow> (pyfloat list list \<times> geodata \<times> metadata) io" where
  "import_aqc w filename =
     (if \<not> pil_imported w then pure_io (Inl (Exception ''PIL not imported''))
      else
        bind_io ([OpenFile filename], Image_open w filename) (\<lambda>B.
        pure_io (Inr (map (map (\<lambda>b. lut ! unat b)) B, import_aqc_geodata, aqc_metadata))))"

section \<open>The Rainfields3 importer\<close>

text \<open>
  \<^verbatim>\<open>datetime.datetime.utcfromtimestamp(t)\<close>: the instant itself, when it lies between
  0001-01-01 00:00:00 and 9999-12-31 23:59:59.
\<close>

definition utcfromtimestamp :: "int \<Rightarrow> error + int" where
  "utcfromtimestamp t =
     (if - 62135596800 \<le> t \<and> t \<le> 253402300799 then Inr t else Inl TimestampError)"

text \<open>
  The instant of a variable, when the dataset holds it:
  \<^verbatim>\<open>utcfromtimestamp(ds.variables[name][:])\<close>, otherwise \<^verbatim>\<open>None\<close>.
\<close>

definition instant :: "int option \<Rightarrow> error + int option" where
  "instant v =
     (case v of None \<Rightarrow> Inr None
      | Some t \<Rightarrow> bind_err (utcfromtimestamp t) (\<lambda>d. Inr (Some d)))"

text \<open>
  The local variable \<^verbatim>\<open>time_step\<close> after the nested \<^verbatim>\<open>if\<close>: it is assigned
  \<^verbatim>\<open>(valid_time - start_time).seconds // 60\<close> when both instants are there, and is left
  unbound (\<open>None\<close>) otherwise. The field \<^verbatim>\<open>seconds\<close> of a time difference is the
  difference modulo one day.
\<close>

definition time_step_of :: "int option \<Rightarrow> int option \<Rightarrow> int option" where
  "time_step_of start valid =
     (case start of None \<Rightarrow> None
      | Some s \<Rightarrow> (case valid of None \<Rightarrow> None
                   | Some v \<Rightarrow> Some (((v - s) mod 86400) div 60)))"

text \<open>Reading a local variable that was never assigned raises \<^verbatim>\<open>UnboundLocalError\<close>.\<close>

definition read_local :: "string \<Rightarrow> 'a option \<Rightarrow> error + 'a" where
  "read_local name v = (case v of None \<Rightarrow> Inl (UnboundLocalError name) | Some x \<Rightarrow> Inr x)"

text \<open>\<^verbatim>\<open>60./time_step\<close>.\<close>

definition truediv60 :: "int \<Rightarrow> error + real" where
  "truediv60 n = (if n = 0 then Inl ZeroDivisionError else Inr (60 / real_of_int n))"

text \<open>
  The branch of \<^verbatim>\<open>_import_bom_rf3_data\<close> for a dataset with the variable
  \<^verbatim>\<open>precipitation\<close>.
\<close>

definition rescale_precipitation :: "dataset \<Rightarrow> pyfloat list list \<Rightarrow> error + pyfloat list list" where
  "rescale_precipitation ds p =
     bind_err (instant (valid_time ds)) (\<lambda>valid.
     bind_err (instant (start_time ds)) (\<lambda>start.
     bind_err (read_local ''time_step'' (time_step_of start valid)) (\<lambda>time_step.
     if time_step \<noteq> 0 then
       bind_err (truediv60 time_step) (\<lambda>factor_rain.
       Inr (map (map (fmap (\<lambda>x. x * factor_rain))) p))
     else Inr p)))"

text \<open>
  \<^verbatim>\<open>_import_bom_rf3_data(filename)\<close>. The dataset is closed after the \<^verbatim>\<open>if\<close>, so not when
  an exception leaves it.
\<close>

definition import_bom_rf3_data :: "world \<Rightarrow> string \<Rightarrow> pyfloat list list option io" where
  "import_bom_rf3_data w filename =
     bind_io ([Print filename], Inr ()) (\<lambda>_.
     bind_io ([OpenFile filename], Dataset w filename) (\<lambda>ds_rainfall.
     bind_io (pure_io
       (case precipitation ds_rainfall of
          Some p \<Rightarrow> bind_err (rescale_precipitation ds_rainfall p) (\<lambda>p'. Inr (Some p'))
        | None \<Rightarrow> Inr None)) (\<lambda>r.
     ([CloseFile filename], Inr r))))"

text \<open>\<^verbatim>\<open>getattr(projection, name)\<close> raises \<^verbatim>\<open>AttributeError\<close> on a missing attribute.\<close>

definition getattr :: "'a option \<Rightarrow> string \<Rightarrow> error + 'a" where
  "getattr a name = (case a of None \<Rightarrow> Inl (AttributeError name) | Some x \<Rightarrow> Inr x)"

text \<open>\<^verbatim>\<open>xs[i]\<close> on an array, for an index from 0 on.\<close>

definition index :: "'a list \<Rightarrow> nat \<Rightarrow> error + 'a" where
  "index xs i = (if i < length xs then Inr (xs ! i) else Inl IndexError)"

text \<open>
  The local variable \<^verbatim>\<open>projdef\<close> of \<^verbatim>\<open>_import_bom_rf3_geodata\<close> after the \<^verbatim>\<open>if\<close>: unbound
  (outer \<open>None\<close>) when the dataset has no variable \<^verbatim>\<open>proj\<close>, the value \<^verbatim>\<open>None\<close> for
  another family than Albers, the definition otherwise.
\<close>

definition bom_projdef :: "world \<Rightarrow> dataset \<Rightarrow> error + string option option" where
  "bom_projdef w ds =
     (case proj ds of
        None \<Rightarrow> Inr None
      | Some projection' \<Rightarrow>
          bind_err (getattr (grid_mapping_name projection') ''grid_mapping_name'') (\<lambda>name.
          if name = ''albers_conical_equal_area'' then
            bind_err (getattr (longitude_of_central_meridian projection')
                        ''longitude_of_central_meridian'') (\<lambda>lon_0.
            bind_err (getattr (latitude_of_projection_origin projection')
                        ''latitude_of_projection_origin'') (\<lambda>lat_0.
            bind_err (getattr (standard_parallel projection') ''standard_parallel'')
              (\<lambda>standard_parallels.
            bind_err (index standard_parallels 0) (\<lambda>sp0.
            bind_err (index standard_parallels 1) (\<lambda>sp1.
            Inr (Some (Some (''+proj=aea '' @ '' +lon_0='' @ py_str w lon_0
                             @ '' +lat_0='' @ py_str w lat_0
                             @ '' +lat_1='' @ py_str w sp0
                             @ '' +lat_2='' @ py_str w sp1))))))))
          else Inr (Some None)))"

text \<open>
  \<^verbatim>\<open>_import_bom_rf3_geodata(filename)\<close>: the dataset is closed, then \<^verbatim>\<open>return projdef\<close>
  reads the local variable.
\<close>

definition import_bom_rf3_geodata :: "world \<Rightarrow> string \<Rightarrow> string option io" where
  "import_bom_rf3_geodata w filename =
     bind_io ([OpenFile filename], Dataset w filename) (\<lambda>ds_rainfall.
     bind_io (pure_io (bom_projdef w ds_rainfall)) (\<lambda>projdef.
     bind_io ([CloseFile filename], Inr ()) (\<lambda>_.
     pure_io (read_local ''projdef'' projdef))))"

definition import_bom_rf3_metadata :: metadata where
  "import_bom_rf3_metadata =
     [''institution'' \<mapsto> StrVal ''Bureau of Meteorology'', ''timestep'' \<mapsto> IntVal 0,
      ''unit'' \<mapsto> StrVal ''mm/h'']"

text \<open>\<^verbatim>\<open>import_bom_rf3(filename)\<close>: the guard on \<^verbatim>\<open>netCDF4\<close>, then the three parts.\<close>

definition import_bom_rf3 :: "world \<Rightarrow> string \<Rightarrow> (pyfloat list list option \<times> string option \<times> metadata) io" where
  "import_bom_rf3 w filename =
     (if \<not> netcdf4_imported w then pure_io (Inl (Exception ''netCDF4 not imported''))
      else
        bind_io (import_bom_rf3_data w filename) (\<lambda>R.
        bind_io (import_bom_rf3_geodata w filename) (\<lambda>geodata.
        pure_io (Inr (R, geodata, import_bom_rf3_metadata)))))"

section \<open>Example inputs\<close>

text \<open>
  A gzipped composite of two rows and two columns: the header with its comment block, the
  line of the dimensions, the line of the sentinel, and the four samples.
\<close>

definition example_header :: string where
  "example_header =
     ''P5'' @ [nl] @ ''# type stereographic'' @ [nl] @ ''# centrallongitude 25'' @ [nl]
     @ ''# centrallatitude 90'' @ [nl] @ ''# truelatitude 60'' @ [nl]
     @ ''# bottomleft 18 57'' @ [nl] @ ''# topright 34 69'' @ [nl]
     @ ''# metersperpixel_x 1000'' @ [nl] @ ''# metersperpixel_y 1000'' @ [nl]
     @ ''2 2'' @ [nl] @ ''255'' @ [nl] @ [CHR 0x40, CHR 0x42, CHR 0xFF, CHR 0x00]"

text \<open>A Rainfields3 dataset: 5 mm accumulated over the five minutes from 0 s to 300 s.\<close>

definition example_dataset :: dataset where
  "example_dataset =
     \<lparr> precipitation = Some [[Num 5, NaN]], valid_time = Some 300, start_time = Some 0,
       proj = Some \<lparr> grid_mapping_name = Some ''albers_conical_equal_area'',
                     longitude_of_central_meridian = Some (Num 132),
                     latitude_of_projection_origin = Some (Num 0),
                     standard_parallel = Some [Num (- 18), Num (- 36)] \<rparr> \<rparr>"

text \<open>
  A runtime with the three libraries, in which every file name leads to the examples
  above. Its \<open>py_float\<close> converts the integer literals of the example header, its
  projection leaves the coordinates as they are.
\<close>

definition example_world :: world where
  "example_world =
     \<lparr> pyproj_imported = True, pil_imported = True, netcdf4_imported = True,
       stream = (\<lambda>name gz. Inr example_header),
       text_readline = (\<lambda>b. map_sum id fst (readline_decode b)),
       imread = (\<lambda>name gz. Inr [[64, 66], [255, 0]]),
       Image_open = (\<lambda>name. Inr [[0, 100], [255, 252]]),
       Dataset = (\<lambda>name. Inr example_dataset),
       Proj = (\<lambda>def. Inr (\<lambda>lon lat. (lon, lat))),
       py_float = (\<lambda>s. map_sum id (\<lambda>n. Num (real_of_int n)) (py_int s)),
       py_str = (\<lambda>x. case x of NaN \<Rightarrow> ''nan''
                  | Num r \<Rightarrow> if r = 132 then ''132.0'' else if r = - 18 then ''-18.0''
                             else if r = - 36 then ''-36.0'' else ''0.0'') \<rparr>"

text \<open>The same runtime with none of the three libraries.\<close>

definition bare_world :: world where
  "bare_world =
     example_world \<lparr> pyproj_imported := False, pil_imported := False,
                    netcdf4_imported := False \<rparr>"

text \<open>
  Three variants of the example dataset: the two instants 59 seconds apart, no instant at
  all, and no projection variable.
\<close>

definition same_minute_world :: world where
  "same_minute_world =
     example_world \<lparr> Dataset := (\<lambda>name. Inr (example_dataset \<lparr> valid_time := Some 59 \<rparr>)) \<rparr>"

definition no_instants_world :: world where
  "no_instants_world =
     example_world \<lparr> Dataset :=
       (\<lambda>name. Inr (example_dataset \<lparr> valid_time := None, start_time := None \<rparr>)) \<rparr>"

definition no_proj_world :: world where
  "no_proj_world =
     example_world \<lparr> Dataset := (\<lambda>name. Inr (example_dataset \<lparr> proj := None \<rparr>)) \<rparr>"

text \<open>
  A gzipped stream whose first line after the comment block is itself an integer: the
  lines \<^verbatim>\<open>P5\<close>, \<^verbatim>\<open># type stereographic\<close>, \<^verbatim>\<open>7\<close>, \<^verbatim>\<open>255\<close>, then one sample.
\<close>

definition sentinel_stream :: string where
  "sentinel_stream =
     ''P5'' @ [nl] @ ''# type stereographic'' @ [nl] @ ''7'' @ [nl] @ ''255'' @ [nl]
     @ [CHR 0xFF]"

definition sentinel_world :: world where
  "sentinel_world = example_world \<lparr> stream := (\<lambda>name gz. Inr sentinel_stream) \<rparr>"

text \<open>
  Two gzipped streams that end inside the header: one without any comment line, one
  whose comment block runs to the end.
\<close>

definition no_comment_world :: world where
  "no_comment_world =
     example_world \<lparr> stream := (\<lambda>name gz. Inr (''P5'' @ [nl] @ ''2 2'' @ [nl] @ ''255'')) \<rparr>"

definition open_block_world :: world where
  "open_block_world =
     example_world \<lparr> stream :=
       (\<lambda>name gz. Inr (''P5'' @ [nl] @ ''# type stereographic'' @ [nl] @ ''# truelatitude 60'')) \<rparr>"

section \<open>Properties\<close>

lemmas io_defs = bind_io_def pure_io_def bind_err_def

lemmas str_defs = readline_decode_def decode_def ascii_def store_comment_def strip_def is_space_def strip_int_def is_int_space_def py_int_def
  digits_value_def is_digit_def digit_val_def

subsection \<open>The guards on the libraries\<close>

text \<open>
  Claim C4. Each importer whose library is absent raises the exception that names the
  library before it touches any file: the call has no event at all, whatever the file
  system holds. The code has no exception class of its own; the condition is
  \<^verbatim>\<open>Exception("pyproj not imported")\<close>, \<^verbatim>\<open>Exception("PIL not imported")\<close> and
  \<^verbatim>\<open>Exception("netCDF4 not imported")\<close>.
\<close>

theorem missing_dependency_raised_first:
  "(\<not> pyproj_imported w \<longrightarrow>
      import_pgm w filename gzipped = ([], Inl (Exception ''pyproj not imported'')))
   \<and> (\<not> pil_imported w \<longrightarrow>
      import_aqc w filename = ([], Inl (Exception ''PIL not imported'')))
   \<and> (\<not> netcdf4_imported w \<longrightarrow>
      import_bom_rf3 w filename = ([], Inl (Exception ''netCDF4 not imported'')))"
  by (simp add: import_pgm_def import_aqc_def import_bom_rf3_def pure_io_def)

theorem missing_dependency_raised_first_witness:
  "\<not> pyproj_imported bare_world \<and> \<not> pil_imported bare_world
   \<and> \<not> netcdf4_imported bare_world
   \<and> import_pgm bare_world ''composite.pgm.gz'' True
       = ([], Inl (Exception ''pyproj not imported''))
   \<and> import_aqc bare_world ''aqc.gif'' = ([], Inl (Exception ''PIL not imported''))
   \<and> import_bom_rf3 bare_world ''rf3.nc'' = ([], Inl (Exception ''netCDF4 not imported''))"
  using missing_dependency_raised_first [of bare_world "''composite.pgm.gz''" True]
    missing_dependency_raised_first [of bare_world "''aqc.gif''" True]
    missing_dependency_raised_first [of bare_world "''rf3.nc''" True]
  by (simp add: bare_world_def example_world_def)

subsection \<open>The projection family of the PGM header\<close>

text \<open>
  Claim C8. When the header value \<^verbatim>\<open>metadata["type"][0]\<close> is not the string
  \<^verbatim>\<open>stereographic\<close>, the derivation of the georeferencing raises
  \<^verbatim>\<open>ValueError("unknown projection ...")\<close> with that value, before it looks at any
  other key.
\<close>

theorem unknown_projection_family:
  assumes "metadata ''type'' = Some v" and "item0 v = Inr t" and "t \<noteq> ''stereographic''"
  shows "import_pgm_geodata w metadata = Inl (ValueError (''unknown projection '' @ t))"
  using assms by (simp add: import_pgm_geodata_def getitem0_def getitem_def bind_err_def)

theorem unknown_projection_family_witness:
  "import_pgm_geodata example_world [''type'' \<mapsto> StrList [''mercator'']]
     = Inl (ValueError ''unknown projection mercator'')"
  using unknown_projection_family
    [of "[''type'' \<mapsto> StrList [''mercator'']]" "StrList [''mercator'']" "''mercator''"
        example_world]
  by simp

subsection \<open>The Rainfields3 importer: the time step\<close>

lemma rescale_never_divides_by_zero:
  "rescale_precipitation ds p \<noteq> Inl ZeroDivisionError"
  by (auto simp: rescale_precipitation_def bind_err_def instant_def utcfromtimestamp_def
      read_local_def truediv60_def split: sum.splits option.splits if_splits)

text \<open>
  Claim C10. With both instants in the dataset and less than one whole minute from the
  start to the valid instant, \<^verbatim>\<open>time_step\<close> is 0, the guard \<^verbatim>\<open>if time_step:\<close> skips the
  division, and the field comes back as it was read. No dataset at all makes the division
  \<^verbatim>\<open>60./time_step\<close> fail.
\<close>

theorem zero_time_step_unscaled:
  assumes "Dataset w filename = Inr ds"
    and "precipitation ds = Some p"
    and "valid_time ds = Some v" and "start_time ds = Some s"
    and "- 62135596800 \<le> s" and "v \<le> 253402300799"
    and "(v - s) div 60 = 0"
  shows "import_bom_rf3_data w filename
           = ([Print filename, OpenFile filename, CloseFile filename], Inr (Some p))
         \<and> (\<forall>ds' p'. rescale_precipitation ds' p' \<noteq> Inl ZeroDivisionError)"
proof -
  from assms(7) have d: "0 \<le> v - s" "v - s < 60"
    by presburger+
  then have ts: "((v - s) mod 86400) div 60 = 0"
    by simp
  from d assms(5,6) have rng: "utcfromtimestamp v = Inr v" "utcfromtimestamp s = Inr s"
    by (simp_all add: utcfromtimestamp_def)
  have "rescale_precipitation ds p = Inr p"
    using assms(3,4) rng ts
    by (simp add: rescale_precipitation_def bind_err_def instant_def time_step_of_def
        read_local_def)
  with assms(1,2) have "import_bom_rf3_data w filename
           = ([Print filename, OpenFile filename, CloseFile filename], Inr (Some p))"
    by (simp add: import_bom_rf3_data_def io_defs)
  with rescale_never_divides_by_zero show ?thesis
    by blast
qed

theorem zero_time_step_unscaled_witness:
  "import_bom_rf3_data same_minute_world ''rf3.nc''
     = ([Print ''rf3.nc'', OpenFile ''rf3.nc'', CloseFile ''rf3.nc''],
        Inr (Some [[Num 5, NaN]]))"
  using zero_time_step_unscaled
    [of same_minute_world "''rf3.nc''" "example_dataset \<lparr> valid_time := Some 59 \<rparr>"
        "[[Num 5, NaN]]" 59 0]
  by (simp add: same_minute_world_def example_world_def example_dataset_def)

text \<open>
  With both instants in the dataset, at least one minute and less than one day apart, the
  field is multiplied by 60 over the whole minutes between them.
\<close>

lemma rescale_by_time_step:
  assumes "valid_time ds = Some v" and "start_time ds = Some s"
    and "- 62135596800 \<le> s" and "v \<le> 253402300799"
    and "60 \<le> v - s" and "v - s < 86400"
  shows "rescale_precipitation ds p
           = Inr (map (map (fmap (\<lambda>x. x * (60 / real_of_int ((v - s) div 60))))) p)"
proof -
  from assms have ts: "((v - s) mod 86400) div 60 = (v - s) div 60" "(v - s) div 60 \<noteq> 0"
    by (simp_all add: zdiv_eq_0_iff)
  from assms have rng: "utcfromtimestamp v = Inr v" "utcfromtimestamp s = Inr s"
    by (simp_all add: utcfromtimestamp_def)
  show ?thesis
    using assms(1,2) rng ts
    by (simp add: rescale_precipitation_def bind_err_def instant_def time_step_of_def
        read_local_def truediv60_def)
qed

text \<open>The example of the specification: 5 mm over 300 seconds are 60 mm/h.\<close>

lemma rescale_example:
  "import_bom_rf3_data example_world ''rf3.nc''
     = ([Print ''rf3.nc'', OpenFile ''rf3.nc'', CloseFile ''rf3.nc''],
        Inr (Some [[Num 60, NaN]]))"
  by (simp add: example_world_def example_dataset_def
      import_bom_rf3_data_def rescale_precipitation_def instant_def time_step_of_def
      read_local_def io_defs utcfromtimestamp_def truediv60_def)

text \<open>
  Claim C3, at a dataset that holds \<^verbatim>\<open>precipitation\<close> and neither \<^verbatim>\<open>valid_time\<close> nor
  \<^verbatim>\<open>start_time\<close>: the claim has the field returned as imported, without error. In the
  code nothing has assigned \<^verbatim>\<open>time_step\<close> when \<^verbatim>\<open>if time_step:\<close> reads it, and the call
  ends with \<^verbatim>\<open>UnboundLocalError\<close>, the dataset still open.
\<close>

theorem missing_instants_raise:
  "import_bom_rf3_data no_instants_world ''rf3.nc''
     = ([Print ''rf3.nc'', OpenFile ''rf3.nc''], Inl (UnboundLocalError ''time_step''))"
  by (simp add: no_instants_world_def example_world_def example_dataset_def
      import_bom_rf3_data_def rescale_precipitation_def instant_def time_step_of_def
      read_local_def io_defs)

subsection \<open>The Rainfields3 importer: absent variables\<close>

text \<open>A dataset without \<^verbatim>\<open>precipitation\<close> gives the field \<^verbatim>\<open>None\<close>.\<close>

lemma no_precipitation_is_None:
  assumes "Dataset w filename = Inr ds" and "precipitation ds = None"
  shows "import_bom_rf3_data w filename
           = ([Print filename, OpenFile filename, CloseFile filename], Inr None)"
  using assms by (simp add: import_bom_rf3_data_def io_defs)

text \<open>A projection variable of another family gives the definition \<^verbatim>\<open>None\<close>.\<close>

lemma other_family_is_None:
  assumes "Dataset w filename = Inr ds" and "proj ds = Some pv"
    and "grid_mapping_name pv = Some name" and "name \<noteq> ''albers_conical_equal_area''"
  shows "import_bom_rf3_geodata w filename
           = ([OpenFile filename, CloseFile filename], Inr None)"
  using assms
  by (simp add: import_bom_rf3_geodata_def bom_projdef_def getattr_def read_local_def
      io_defs)

text \<open>
  Claim C5, at a dataset without the variable \<^verbatim>\<open>proj\<close>: the claim has the projection
  definition \<^verbatim>\<open>None\<close> and a normal return. In the code the outer \<^verbatim>\<open>if\<close> has no \<^verbatim>\<open>else\<close>,
  \<^verbatim>\<open>projdef\<close> is never assigned, and \<^verbatim>\<open>return projdef\<close> raises \<^verbatim>\<open>UnboundLocalError\<close>,
  which ends \<^verbatim>\<open>import_bom_rf3\<close> too.
\<close>

theorem missing_proj_raises:
  "import_bom_rf3_geodata no_proj_world ''rf3.nc''
     = ([OpenFile ''rf3.nc'', CloseFile ''rf3.nc''], Inl (UnboundLocalError ''projdef''))
   \<and> snd (import_bom_rf3 no_proj_world ''rf3.nc'') = Inl (UnboundLocalError ''projdef'')"
  by (simp add: no_proj_world_def example_world_def example_dataset_def
      import_bom_rf3_def import_bom_rf3_geodata_def bom_projdef_def
      import_bom_rf3_data_def rescale_precipitation_def instant_def time_step_of_def
      read_local_def io_defs utcfromtimestamp_def truediv60_def)

subsection \<open>The PGM importer: the samples\<close>

lemma pgm_sample_eq:
  "pgm_sample n s = (if uint s = n then NaN else Num ((real_of_int (uint s) - 64) / 2))"
  by (simp add: pgm_sample_def)

text \<open>The header extraction always stores an integer under \<^verbatim>\<open>missingval\<close>.\<close>

lemma parse_pgm_header_missingval:
  "parse_pgm_header f = Inr md \<Longrightarrow> \<exists>n. md ''missingval'' = Some (IntVal n)"
  by (auto simp: parse_pgm_header_def split: sum.splits prod.splits)

lemma import_pgm_metadata_missingval:
  assumes "import_pgm_metadata w filename gzipped = (t, Inr m)"
  shows "\<exists>n. m ''missingval'' = Some (IntVal n)"
proof -
  from assms obtain f md where "parse_pgm_header f = Inr md" and "m = pgm_constants md"
    by (auto simp: import_pgm_metadata_def io_defs split: sum.splits if_splits)
  with parse_pgm_header_missingval [of f md] show ?thesis
    by (auto simp: pgm_constants_def)
qed

text \<open>
  Claim C1. With \<^verbatim>\<open>pyproj\<close> present, once the header is extracted, the raster decoded
  and the georeferencing derived, \<^verbatim>\<open>import_pgm\<close> returns: the stored sentinel is an
  integer \<open>n\<close>, and the field has, for each 8-bit sample \<open>s\<close> of the raster, NaN where
  \<open>s\<close> equals \<open>n\<close> and (s - 64) / 2 elsewhere. The witness is the example of the
  specification: sentinel 255 and the samples 64, 66, 255, 0.
\<close>

theorem pgm_samples_rescaled:
  assumes "pyproj_imported w"
    and "import_pgm_metadata w filename gzipped = (t, Inr m)"
    and "imread w filename gzipped = Inr S"
    and "import_pgm_geodata w m = Inr g"
  shows "\<exists>n. m ''missingval'' = Some (IntVal n)
           \<and> import_pgm w filename gzipped
               = (t @ [OpenFile filename],
                  Inr (map (map (\<lambda>s. if uint s = n then NaN
                                       else Num ((real_of_int (uint s) - 64) / 2))) S,
                       g, m))"
proof -
  from import_pgm_metadata_missingval [OF assms(2)] obtain n where
    n: "m ''missingval'' = Some (IntVal n)"
    by blast
  with assms have "import_pgm w filename gzipped
               = (t @ [OpenFile filename], Inr (map (map (pgm_sample n)) S, g, m))"
    by (simp add: import_pgm_def io_defs getitem_def)
  with n show ?thesis
    by (auto simp: pgm_sample_eq)
qed

text \<open>The three stages succeed on the example composite, with the sentinel 255.\<close>

lemma example_stages:
  "\<exists>m g. import_pgm_metadata example_world ''composite.pgm.gz'' True
             = ([OpenFile ''composite.pgm.gz'', CloseFile ''composite.pgm.gz''], Inr m)
         \<and> m ''missingval'' = Some (IntVal 255)
         \<and> import_pgm_geodata example_world m = Inr g"
  by (simp add: example_world_def example_header_def import_pgm_metadata_def
      parse_pgm_header_def pgm_constants_def import_pgm_geodata_def getitem0_def getitem_def
      float_pair_def io_defs str_defs)

theorem pgm_samples_rescaled_witness:
  "pyproj_imported example_world
   \<and> imread example_world ''composite.pgm.gz'' True = Inr [[64, 66], [255, 0]]
   \<and> fst (import_pgm example_world ''composite.pgm.gz'' True)
       = [OpenFile ''composite.pgm.gz'', CloseFile ''composite.pgm.gz'',
          OpenFile ''composite.pgm.gz'']
   \<and> map_sum id fst (snd (import_pgm example_world ''composite.pgm.gz'' True))
       = Inr [[Num 0, Num 1], [NaN, Num (- 32)]]"
proof -
  from example_stages obtain m g where
    md: "import_pgm_metadata example_world ''composite.pgm.gz'' True
           = ([OpenFile ''composite.pgm.gz'', CloseFile ''composite.pgm.gz''], Inr m)"
    and mv: "m ''missingval'' = Some (IntVal 255)"
    and g: "import_pgm_geodata example_world m = Inr g"
    by blast
  have py: "pyproj_imported example_world"
    and S: "imread example_world ''composite.pgm.gz'' True = Inr [[64, 66], [255, 0]]"
    by (simp_all add: example_world_def)
  from pgm_samples_rescaled [OF py md S g] mv py S show ?thesis
    by auto
qed

text \<open>
  Conversely, every field that \<^verbatim>\<open>import_pgm\<close> returns is the rescaled raster.
\<close>

lemma import_pgm_result:
  assumes "import_pgm w filename gzipped = (t, Inr (R, g, m))"
  shows "\<exists>S n. imread w filename gzipped = Inr S \<and> m ''missingval'' = Some (IntVal n)
           \<and> R = map (map (\<lambda>s. if uint s = n then NaN
                                 else Num ((real_of_int (uint s) - 64) / 2))) S"
proof -
  from assms obtain t1 S mv where
    md: "import_pgm_metadata w filename gzipped = (t1, Inr m)"
    and S: "imread w filename gzipped = Inr S"
    and mv: "getitem m ''missingval'' = Inr mv"
    and R: "pgm_field mv S = Inr R"
    by (auto simp: import_pgm_def io_defs split: if_splits sum.splits prod.splits)
  from R obtain n where n: "mv = IntVal n" and R': "R = map (map (pgm_sample n)) S"
    by (cases mv) auto
  from mv n have "m ''missingval'' = Some (IntVal n)"
    by (simp add: getitem_def split: option.splits)
  with S R' show ?thesis
    by (auto simp: pgm_sample_eq)
qed

subsection \<open>The AQC importer: the lookup table\<close>

lemma length_fold_update:
  "length (fold (\<lambda>i t. t[i := f i]) is t) = length t"
  by (induction "is" arbitrary: t) simp_all

lemma fold_update_nth:
  "m \<le> length t \<Longrightarrow> i < length t \<Longrightarrow>
     fold (\<lambda>i t. t[i := f i]) [0..<m] t ! i = (if i < m then f i else t ! i)"
proof (induction m)
  case 0
  then show ?case by simp
next
  case (Suc m)
  then show ?case
    by (auto simp: length_fold_update nth_list_update less_Suc_eq)
qed

lemma length_lut: "length lut = 256"
  by (simp add: lut_def length_fold_update)

lemma lut_nth: "i < 256 \<Longrightarrow> lut ! i = lut_entry i"
  by (simp add: lut_def fold_update_nth)

text \<open>The rate grows with the index.\<close>

lemma rate_mono:
  fixes a b :: real
  assumes "a \<le> b"
  shows "(10 powr ((a - 71.2) / 20) / 316) powr (1 / 1.5) * 60 / 5
           \<le> (10 powr ((b - 71.2) / 20) / 316) powr (1 / 1.5) * 60 / 5"
proof -
  from assms have "(10::real) powr ((a - 71.2) / 20) \<le> 10 powr ((b - 71.2) / 20)"
    by (simp add: powr_mono)
  then have "10 powr ((a - 71.2) / 20) / 316 \<le> 10 powr ((b - 71.2) / 20) / (316::real)"
    by (simp add: divide_right_mono)
  then have "(10 powr ((a - 71.2) / 20) / 316) powr (1 / 1.5)
               \<le> (10 powr ((b - 71.2) / 20) / (316::real)) powr (1 / 1.5)"
    by (intro powr_mono2) simp_all
  then show ?thesis
    by simp
qed

text \<open>
  Claim C2. The table has 256 entries: 0 at the indices 0, 1 and 251 to 254, NaN at 255,
  and the rate \<open>((10 powr ((i - 71.2) / 20) / 316) powr (1 / 1.5)) * 60 / 5\<close> at every other
  index. With \<^verbatim>\<open>PIL\<close> present, \<^verbatim>\<open>import_aqc\<close> returns for every image that decodes, and
  its field is the table entry at each 8-bit index of the image. The formula is read over
  the real numbers.
\<close>

theorem lut_rule_and_lookup:
  "lut ! 0 = Num 0 \<and> lut ! 1 = Num 0
   \<and> (\<forall>i. 251 \<le> i \<and> i \<le> 254 \<longrightarrow> lut ! i = Num 0)
   \<and> lut ! 255 = NaN
   \<and> (\<forall>i. 2 \<le> i \<and> i \<le> 250 \<longrightarrow>
         lut ! i = Num ((10 powr ((real i - 71.2) / 20) / 316) powr (1 / 1.5) * 60 / 5))
   \<and> length lut = 256
   \<and> (\<forall>w filename B. pil_imported w \<and> Image_open w filename = Inr B \<longrightarrow>
         import_aqc w filename
           = ([OpenFile filename],
              Inr (map (map (\<lambda>b. lut ! unat b)) B, import_aqc_geodata, aqc_metadata)))"
proof -
  have "lut ! 0 = Num 0" "lut ! 1 = Num 0" "lut ! 255 = NaN"
    by (simp_all add: lut_nth lut_entry_def)
  moreover have "\<forall>i. 251 \<le> i \<and> i \<le> 254 \<longrightarrow> lut ! i = Num 0"
    by (simp add: lut_nth lut_entry_def)
  moreover have "\<forall>i. 2 \<le> i \<and> i \<le> 250 \<longrightarrow>
         lut ! i = Num ((10 powr ((real i - 71.2) / 20) / 316) powr (1 / 1.5) * 60 / 5)"
    by (simp add: lut_nth lut_entry_def)
  moreover have "\<forall>w filename B. pil_imported w \<and> Image_open w filename = Inr B \<longrightarrow>
         import_aqc w filename
           = ([OpenFile filename],
              Inr (map (map (\<lambda>b. lut ! unat b)) B, import_aqc_geodata, aqc_metadata))"
    by (simp add: import_aqc_def io_defs)
  ultimately show ?thesis
    using length_lut by blast
qed

theorem lut_rule_and_lookup_witness:
  "lut ! 252 = Num 0
   \<and> lut ! 100 = Num ((10 powr ((100 - 71.2) / 20) / 316) powr (1 / 1.5) * 60 / 5)
   \<and> pil_imported example_world
   \<and> Image_open example_world ''aqc.gif'' = Inr [[0, 100], [255, 252]]
   \<and> import_aqc example_world ''aqc.gif''
       = ([OpenFile ''aqc.gif''],
          Inr ([[lut ! 0, lut ! 100], [lut ! 255, lut ! 252]], import_aqc_geodata, aqc_metadata))"
proof -
  have w: "pil_imported example_world
           \<and> Image_open example_world ''aqc.gif'' = Inr [[0, 100], [255, 252]]"
    by (simp add: example_world_def)
  note zero = lut_rule_and_lookup [THEN conjunct2, THEN conjunct2, THEN conjunct1]
  note rate = lut_rule_and_lookup
    [THEN conjunct2, THEN conjunct2, THEN conjunct2, THEN conjunct2, THEN conjunct1]
  note lookup = lut_rule_and_lookup
    [THEN conjunct2, THEN conjunct2, THEN conjunct2, THEN conjunct2, THEN conjunct2,
     THEN conjunct2]
  from zero have "lut ! 252 = Num 0"
    by simp
  moreover from rate [rule_format, of 100]
  have "lut ! 100 = Num ((10 powr ((100 - 71.2) / 20) / 316) powr (1 / 1.5) * 60 / 5)"
    by simp
  moreover from lookup [rule_format, OF w]
  have "import_aqc example_world ''aqc.gif''
       = ([OpenFile ''aqc.gif''],
          Inr ([[lut ! 0, lut ! 100], [lut ! 255, lut ! 252]], import_aqc_geodata, aqc_metadata))"
    by simp
  ultimately show ?thesis
    using w by simp
qed

text \<open>
  Claim C9. The table is a constant of the importer, so no file content changes it: its
  entry 0 is 0, its entry 255 is NaN, and from index 2 to index 250 it never decreases.
\<close>

theorem lut_ends_and_monotone:
  "lut ! 0 = Num 0 \<and> lut ! 255 = NaN
   \<and> (\<forall>i j. 2 \<le> i \<and> i \<le> j \<and> j \<le> 250 \<longrightarrow> fle (lut ! i) (lut ! j))"
proof -
  have "fle (lut ! i) (lut ! j)" if "2 \<le> i" "i \<le> j" "j \<le> 250" for i j
  proof -
    from that have "real i \<le> real j"
      by simp
    from rate_mono [OF this] that show ?thesis
      by (simp add: lut_nth lut_entry_def)
  qed
  moreover have "lut ! 0 = Num 0" "lut ! 255 = NaN"
    by (simp_all add: lut_nth lut_entry_def)
  ultimately show ?thesis
    by blast
qed

theorem lut_ends_and_monotone_witness:
  "fle (lut ! 2) (lut ! 250) \<and> fle (lut ! 100) (lut ! 100)"
  using lut_ends_and_monotone by simp

subsection \<open>The PGM importer: a header that never ends\<close>

text \<open>What one call of \<^verbatim>\<open>readline\<close> takes and leaves.\<close>

lemma readline_append: "readline f = (b, f') \<Longrightarrow> f = b @ f'"
  by (induction f arbitrary: b f') (auto split: if_splits prod.splits)

lemma readline_lines:
  assumes "readline f = (b, f')"
  shows "(if b = [] then [] else [b]) @ lines_of f' = lines_of f" and "b = [] \<longrightarrow> f' = []"
proof -
  show "b = [] \<longrightarrow> f' = []"
    using assms by (cases f) (auto split: if_splits prod.splits)
  show "(if b = [] then [] else [b]) @ lines_of f' = lines_of f"
  proof (cases f)
    case Nil
    with assms show ?thesis by simp
  next
    case (Cons c cs)
    with assms have "b \<noteq> []"
      by (auto split: if_splits prod.splits)
    moreover from Cons assms have "lines_of f = b # lines_of f'"
      by (simp del: readline.simps)
    ultimately show ?thesis by simp
  qed
qed

lemma readline_ascii: "readline f = (b, f') \<Longrightarrow> ascii f \<longleftrightarrow> ascii b \<and> ascii f'"
  by (drule readline_append) (auto simp: ascii_def)

text \<open>
  When every line that is left is a comment, the second loop reads to the end of the
  stream and fails there, or fails earlier on a line it cannot decode.
\<close>

lemma read_comments_to_end:
  assumes "\<forall>x \<in> set (lines_of f). is_comment x"
    and "l = [] \<longrightarrow> f = []" and "l \<noteq> [] \<longrightarrow> is_comment l"
  shows "read_comments md l f = Inl (if ascii f then IndexError else UnicodeDecodeError)"
  using assms
proof (induction md l f rule: read_comments.induct)
  case (1 md f)
  then show ?case by (simp add: ascii_def)
next
  case (2 md c cs f)
  obtain b f' where rd: "readline f = (b, f')"
    by (cases "readline f")
  note f = readline_ascii [OF rd]
  from "2.prems" have c: "c = CHR ''#''"
    by (simp add: is_comment_def)
  show ?case
  proof (cases "ascii b")
    case False
    with rd f c show ?thesis
      by (simp add: readline_decode_def decode_def)
  next
    case True
    with rd have rdd: "readline_decode f = Inr (b, f')"
      by (simp add: readline_decode_def decode_def)
    from "2.prems"(1) readline_lines(1) [OF rd]
    have "\<forall>x \<in> set ((if b = [] then [] else [b]) @ lines_of f'). is_comment x"
      by simp
    with readline_lines(2) [OF rd]
    have lines: "\<forall>x \<in> set (lines_of f'). is_comment x" "b = [] \<longrightarrow> f' = []"
      "b \<noteq> [] \<longrightarrow> is_comment b"
      by auto
    from "2.IH" [OF c rdd refl lines] True f c rdd show ?thesis
      by simp
  qed
qed

text \<open>The same for the first loop followed by the second.\<close>

lemma skip_to_comment_to_end:
  assumes "\<forall>x \<in> set (dropWhile (Not \<circ> is_comment) ((if l = [] then [] else [l]) @ lines_of f)).
             is_comment x"
    and "l = [] \<longrightarrow> f = []"
  shows "(case skip_to_comment l f of Inl e \<Rightarrow> Inl e
          | Inr (l', f') \<Rightarrow> map_sum id (\<lambda>x. ()) (read_comments md l' f'))
         = Inl (if ascii f then IndexError else UnicodeDecodeError)"
  using assms
proof (induction l f rule: skip_to_comment.induct)
  case (1 f)
  then show ?case by (simp add: ascii_def)
next
  case (2 c cs f)
  show ?case
  proof (cases "c = CHR ''#''")
    case True
    then have ic: "is_comment (c # cs)"
      by (simp add: is_comment_def)
    with "2.prems"(1) have "\<forall>x \<in> set (lines_of f). is_comment x"
      by simp
    from read_comments_to_end [OF this, of "c # cs" md] ic
    have "read_comments md (c # cs) f = Inl (if ascii f then IndexError else UnicodeDecodeError)"
      by simp
    moreover from True have "skip_to_comment (c # cs) f = Inr (c # cs, f)"
      by simp
    ultimately show ?thesis
      by (simp del: read_comments.simps skip_to_comment.simps)
  next
    case False
    then have nic: "\<not> is_comment (c # cs)"
      by (simp add: is_comment_def)
    obtain b f' where rd: "readline f = (b, f')"
      by (cases "readline f")
    note f = readline_ascii [OF rd]
    show ?thesis
    proof (cases "ascii b")
      case nasc: False
      with rd have "readline_decode f = Inl UnicodeDecodeError"
        by (simp add: readline_decode_def decode_def)
      with False have "skip_to_comment (c # cs) f = Inl UnicodeDecodeError"
        by simp
      with nasc f show ?thesis
        by (simp del: skip_to_comment.simps)
    next
      case asc: True
      with rd have rdd: "readline_decode f = Inr (b, f')"
        by (simp add: readline_decode_def decode_def)
      from nic have drop:
        "dropWhile (Not \<circ> is_comment) ((if c # cs = [] then [] else [c # cs]) @ lines_of f)
           = dropWhile (Not \<circ> is_comment) (lines_of f)"
        by simp
      from "2.prems"(1) [unfolded drop]
      have
        "\<forall>x \<in> set (dropWhile (Not \<circ> is_comment) ((if b = [] then [] else [b]) @ lines_of f')).
             is_comment x"
        by (simp only: readline_lines(1) [OF rd])
      note IH = "2.IH" [OF False rdd refl this readline_lines(2) [OF rd]]
      from False rdd have "skip_to_comment (c # cs) f = skip_to_comment b f'"
        by simp
      with IH asc f show ?thesis
        by (simp del: skip_to_comment.simps)
    qed
  qed
qed


lemma parse_pgm_header_to_end:
  assumes "\<forall>x \<in> set (dropWhile (Not \<circ> is_comment) (lines_of s)). is_comment x"
  shows "parse_pgm_header s = Inl (if ascii s then IndexError else UnicodeDecodeError)"
proof -
  obtain b f' where rd: "readline s = (b, f')"
    by (cases "readline s")
  note f = readline_ascii [OF rd]
  show ?thesis
  proof (cases "ascii b")
    case False
    with rd have "readline_decode s = Inl UnicodeDecodeError"
      by (simp add: readline_decode_def decode_def)
    with False f show ?thesis
      by (simp add: parse_pgm_header_def)
  next
    case True
    with rd have rdd: "readline_decode s = Inr (b, f')"
      by (simp add: readline_decode_def decode_def)
    from assms have
      "\<forall>x \<in> set (dropWhile (Not \<circ> is_comment) ((if b = [] then [] else [b]) @ lines_of f')).
           is_comment x"
      by (simp only: readline_lines(1) [OF rd])
    note skip = skip_to_comment_to_end [OF this readline_lines(2) [OF rd], of Map.empty]
    have "parse_pgm_header s = Inl (if ascii f' then IndexError else UnicodeDecodeError)"
    proof (cases "skip_to_comment b f'")
      case (Inl e)
      with skip rdd show ?thesis
        by (simp add: parse_pgm_header_def)
    next
      case (Inr p)
      obtain l1 f2 where p: "p = (l1, f2)"
        by (cases p)
      with Inr skip have
        "map_sum id (\<lambda>x. ()) (read_comments Map.empty l1 f2)
           = Inl (if ascii f' then IndexError else UnicodeDecodeError)"
        by simp
      then have "read_comments Map.empty l1 f2
                   = Inl (if ascii f' then IndexError else UnicodeDecodeError)"
        by (cases "read_comments Map.empty l1 f2") simp_all
      with Inr p rdd show ?thesis
        by (simp add: parse_pgm_header_def)
    qed
    with True f show ?thesis
      by simp
  qed
qed

text \<open>
  Claim C6. Take a stream in which every line from the first comment line on is a comment
  line: a stream without any comment line, or one whose comment block runs to the end.
  The extraction of the header then returns no metadata. Both loops are total functions,
  so the call ends; it ends with an exception and leaves the file open. For a gzipped
  stream the exception is the \<^verbatim>\<open>IndexError\<close> of \<^verbatim>\<open>l[0]\<close> on the empty string that
  \<^verbatim>\<open>readline\<close> returns at the end of the stream, unless a line failed to decode before;
  on ASCII text it is the \<^verbatim>\<open>IndexError\<close>. The code has no exception class of its own
  for a malformed header.
\<close>

theorem unterminated_header_raises:
  assumes "stream w filename gzipped = Inr s"
    and "\<forall>l \<in> set (dropWhile (Not \<circ> is_comment) (lines_of s)). is_comment l"
  shows "\<exists>e. import_pgm_metadata w filename gzipped = ([OpenFile filename], Inl e)
           \<and> (gzipped \<longrightarrow> e = IndexError \<or> e = UnicodeDecodeError)
           \<and> (gzipped \<longrightarrow> ascii s \<longrightarrow> e = IndexError)"
  using assms(1) parse_pgm_header_to_end [OF assms(2)]
  by (simp add: import_pgm_metadata_def io_defs)

theorem unterminated_header_raises_witness:
  "import_pgm_metadata no_comment_world ''composite.pgm.gz'' True
     = ([OpenFile ''composite.pgm.gz''], Inl IndexError)
   \<and> import_pgm_metadata open_block_world ''composite.pgm.gz'' True
     = ([OpenFile ''composite.pgm.gz''], Inl IndexError)"
  using unterminated_header_raises
      [of no_comment_world "''composite.pgm.gz''" True "''P5'' @ [nl] @ ''2 2'' @ [nl] @ ''255''"]
    unterminated_header_raises
      [of open_block_world "''composite.pgm.gz''" True
          "''P5'' @ [nl] @ ''# type stereographic'' @ [nl] @ ''# truelatitude 60''"]
  by (auto simp: no_comment_world_def open_block_world_def example_world_def is_comment_def
      ascii_def)

subsection \<open>The PGM importer: the line of the sentinel\<close>

text \<open>Reading a complete line of text takes exactly that line.\<close>

lemma readline_upto_newline: "nl \<notin> set b \<Longrightarrow> readline (b @ nl # r) = (b @ [nl], r)"
  by (induction b) auto

lemma readline_text_line:
  assumes "text_line l"
  shows "readline (l @ r) = (l, r)"
proof -
  from assms have "l \<noteq> []" and "last l = nl" and n: "nl \<notin> set (butlast l)"
    by (simp_all add: text_line_def)
  then have l: "l = butlast l @ [nl]"
    using append_butlast_last_id [of l] by simp
  have "readline ((butlast l @ [nl]) @ r) = (butlast l @ [nl], r)"
    using readline_upto_newline [OF n, of r] by (simp del: readline.simps)
  with l show ?thesis
    by metis
qed

lemma readline_decode_text_line:
  "text_line l \<Longrightarrow> readline_decode (l @ r) = Inr (l, r)"
  by (simp add: readline_decode_def readline_text_line decode_def text_line_def)

lemma lines_of_text_line:
  assumes "text_line l"
  shows "lines_of (l @ r) = l # lines_of r"
proof -
  from assms obtain c cs where l: "l = c # cs"
    by (cases l) (auto simp: text_line_def)
  have "lines_of ((c # cs) @ r) = (case readline ((c # cs) @ r) of (a, b) \<Rightarrow> a # lines_of b)"
    by (simp del: readline.simps)
  with readline_text_line [OF assms, of r] l show ?thesis
    by (simp del: readline.simps lines_of.simps)
qed

lemma lines_of_text_lines:
  "\<forall>l \<in> set ls. text_line l \<Longrightarrow> lines_of (concat ls @ r) = ls @ lines_of r"
  by (induction ls) (simp_all add: lines_of_text_line del: lines_of.simps)

lemma comment_Cons: "is_comment l \<longleftrightarrow> (\<exists>cs. l = CHR ''#'' # cs)"
  by (cases l) (auto simp: is_comment_def)

lemma not_comment_text:
  "text_line l \<Longrightarrow> \<not> is_comment l \<Longrightarrow> \<exists>x xs. l = x # xs \<and> x \<noteq> CHR ''#''"
  by (cases l) (auto simp: is_comment_def text_line_def)

text \<open>One round of each loop on a complete line, and the loops on whole blocks.\<close>

lemma skip_step:
  assumes "x \<noteq> CHR ''#''" and "text_line p"
  shows "skip_to_comment (x # xs) (p @ r) = skip_to_comment p r"
  using assms readline_decode_text_line [OF assms(2), of r] by simp

lemma skip_to_comment_stops:
  assumes "\<forall>p \<in> set pre. text_line p \<and> \<not> is_comment p"
    and "x \<noteq> CHR ''#''"
    and "text_line c" and "is_comment c"
  shows "skip_to_comment (x # xs) (concat pre @ c @ r) = Inr (c, r)"
  using assms(1,2)
proof (induction pre arbitrary: x xs)
  case Nil
  from assms(4) obtain cs where c: "c = CHR ''#'' # cs"
    by (auto simp: comment_Cons)
  have "skip_to_comment (x # xs) (c @ r) = skip_to_comment c r"
    using Nil(2) assms(3) by (rule skip_step)
  also from c have "\<dots> = Inr (c, r)"
    by simp
  finally show ?case
    by (simp del: skip_to_comment.simps)
next
  case (Cons p ps)
  from Cons.prems have p: "text_line p" "\<not> is_comment p"
    and ps: "\<forall>p \<in> set ps. text_line p \<and> \<not> is_comment p"
    by simp_all
  from not_comment_text [OF p] obtain y ys where y: "p = y # ys" "y \<noteq> CHR ''#''"
    by blast
  have "skip_to_comment (x # xs) (p @ concat ps @ c @ r) = skip_to_comment p (concat ps @ c @ r)"
    using Cons.prems(2) p(1) by (rule skip_step)
  also have "\<dots> = Inr (c, r)"
    unfolding y(1) using ps y(2) by (rule Cons.IH)
  finally show ?case
    by (simp del: skip_to_comment.simps)
qed

lemma read_step:
  assumes "text_line p"
  shows "read_comments md (CHR ''#'' # cs) (p @ r) = read_comments (store_comment md cs) p r"
  using readline_decode_text_line [OF assms, of r] by simp

lemma read_comments_stops:
  assumes "\<forall>b \<in> set block. text_line b \<and> is_comment b"
    and "is_comment l"
    and "text_line stop" and "\<not> is_comment stop"
  shows "read_comments md l (concat block @ stop @ r)
           = Inr (foldl (\<lambda>md l. store_comment md (tl l)) md (l # block), stop, r)"
  using assms(1,2)
proof (induction block arbitrary: md l)
  case Nil
  from Nil obtain cs where l: "l = CHR ''#'' # cs"
    by (auto simp: comment_Cons)
  from not_comment_text [OF assms(3,4)] obtain x xs where s: "stop = x # xs" "x \<noteq> CHR ''#''"
    by blast
  have "read_comments md (CHR ''#'' # cs) (stop @ r) = read_comments (store_comment md cs) stop r"
    using assms(3) by (rule read_step)
  also from s have "\<dots> = Inr (store_comment md cs, stop, r)"
    by simp
  finally show ?case
    using l by (simp del: read_comments.simps)
next
  case (Cons b bs)
  from Cons.prems obtain cs where l: "l = CHR ''#'' # cs"
    by (auto simp: comment_Cons)
  from Cons.prems have b: "text_line b" "is_comment b"
    and bs: "\<forall>b \<in> set bs. text_line b \<and> is_comment b"
    by simp_all
  have "read_comments md (CHR ''#'' # cs) (b @ concat bs @ stop @ r)
          = read_comments (store_comment md cs) b (concat bs @ stop @ r)"
    using b(1) by (rule read_step)
  also have "\<dots> = Inr (foldl (\<lambda>md l. store_comment md (tl l)) (store_comment md cs) (b # bs),
                         stop, r)"
    using bs b(2) by (rule Cons.IH)
  finally show ?case
    using l by (simp del: read_comments.simps)
qed

text \<open>
  The header of a stream made of a preamble, a comment block, the line that ends the
  block and one more line: the entries of the block, and the integer of the last line.
\<close>

lemma parse_pgm_header_sentinel:
  assumes lines: "\<forall>l \<in> set (pre @ block @ [stop, sent]). text_line l"
    and pre: "\<forall>l \<in> set pre. \<not> is_comment l"
    and block: "block \<noteq> []" "\<forall>l \<in> set block. is_comment l"
    and stop: "\<not> is_comment stop"
  shows "parse_pgm_header (concat (pre @ block @ [stop, sent]) @ payload)
           = map_sum id (\<lambda>n. (header_entries block)(''missingval'' \<mapsto> IntVal n)) (py_int sent)"
proof -
  from block obtain b0 bs where bl: "block = b0 # bs"
    by (cases block) auto
  define tail where "tail = concat bs @ stop @ sent @ payload"
  from lines bl block have b0: "text_line b0" "is_comment b0"
    and bs: "\<forall>b \<in> set bs. text_line b \<and> is_comment b"
    and st: "text_line stop" and se: "text_line sent"
    by auto
  from b0 obtain cs where c0: "b0 = CHR ''#'' # cs"
    by (auto simp: comment_Cons)
  have skip: "\<exists>l0 f1. readline_decode (concat (pre @ block @ [stop, sent]) @ payload) = Inr (l0, f1)
                \<and> skip_to_comment l0 f1 = Inr (b0, tail)"
  proof (cases pre)
    case Nil
    have "readline_decode (b0 @ tail) = Inr (b0, tail)"
      using b0(1) by (rule readline_decode_text_line)
    moreover from c0 have "skip_to_comment b0 tail = Inr (b0, tail)"
      by simp
    moreover from Nil bl have "concat (pre @ block @ [stop, sent]) @ payload = b0 @ tail"
      by (simp add: tail_def)
    ultimately show ?thesis
      by (simp del: skip_to_comment.simps)
  next
    case (Cons p ps)
    with lines pre have p: "text_line p" "\<not> is_comment p"
      and ps: "\<forall>q \<in> set ps. text_line q \<and> \<not> is_comment q"
      by auto
    from not_comment_text [OF p] obtain y ys where y: "p = y # ys" "y \<noteq> CHR ''#''"
      by blast
    have "readline_decode (p @ concat ps @ b0 @ tail) = Inr (p, concat ps @ b0 @ tail)"
      using p(1) by (rule readline_decode_text_line)
    moreover have "skip_to_comment p (concat ps @ b0 @ tail) = Inr (b0, tail)"
      unfolding y(1) using ps y(2) b0 by (rule skip_to_comment_stops)
    moreover from Cons bl
    have "concat (pre @ block @ [stop, sent]) @ payload = p @ concat ps @ b0 @ tail"
      by (simp add: tail_def)
    ultimately show ?thesis
      by (simp del: skip_to_comment.simps)
  qed
  then obtain l0 f1 where
    rd0: "readline_decode (concat (pre @ block @ [stop, sent]) @ payload) = Inr (l0, f1)"
    and sk: "skip_to_comment l0 f1 = Inr (b0, tail)"
    by blast
  have "read_comments Map.empty b0 (concat bs @ stop @ sent @ payload)
          = Inr (foldl (\<lambda>md l. store_comment md (tl l)) Map.empty (b0 # bs), stop, sent @ payload)"
    using bs b0(2) st stop by (rule read_comments_stops)
  with bl have rc: "read_comments Map.empty b0 tail
                      = Inr (header_entries block, stop, sent @ payload)"
    by (simp add: tail_def header_entries_def del: read_comments.simps)
  have rd3: "readline_decode (sent @ payload) = Inr (sent, payload)"
    using se by (rule readline_decode_text_line)
  from rd0 sk rc rd3 show ?thesis
    by (cases "py_int sent")
       (simp_all add: parse_pgm_header_def del: read_comments.simps skip_to_comment.simps)
qed

lemma line_after_block_stop:
  assumes lines: "\<forall>l \<in> set (pre @ block @ [stop, sent]). text_line l"
    and pre: "\<forall>l \<in> set pre. \<not> is_comment l"
    and block: "block \<noteq> []" "\<forall>l \<in> set block. is_comment l"
    and stop: "\<not> is_comment stop"
  shows "line_after_block (concat (pre @ block @ [stop, sent]) @ payload) = Some stop"
proof -
  from block obtain b0 bs where bl: "block = b0 # bs"
    by (cases block) auto
  with block have b0: "is_comment b0"
    by simp
  have "lines_of (concat (pre @ block @ [stop, sent]) @ payload)
          = (pre @ block @ [stop, sent]) @ lines_of payload"
    using lines by (rule lines_of_text_lines)
  moreover from pre b0 bl
  have "dropWhile (Not \<circ> is_comment) ((pre @ block @ [stop, sent]) @ lines_of payload)
          = block @ [stop, sent] @ lines_of payload"
    by (simp add: dropWhile_append3)
  moreover from block(2) stop
  have "dropWhile is_comment (block @ [stop, sent] @ lines_of payload)
          = stop # sent # lines_of payload"
    by (simp add: dropWhile_append2)
  ultimately show ?thesis
    by (simp add: line_after_block_def del: lines_of.simps)
qed

text \<open>
  The integer of a line: the newline after the digits is skipped, a separator such as
  0x1F is not.
\<close>

lemma py_int_newline: "py_int (''255'' @ [nl]) = Inr 255"
  by (simp add: str_defs)

lemma py_int_separator: "py_int (''255'' @ [CHR 0x1F, nl]) = Inl ValueError_builtin"
  by (simp add: str_defs)

text \<open>
  Claim C7, as amended. Take a gzipped stream that starts with lines \<open>pre\<close> that are not
  comments, a non-empty block of comment lines, a line \<open>stop\<close> that is not a comment and
  a line \<open>sent\<close>, all complete lines of ASCII text; anything may follow. The second loop
  stops at \<open>stop\<close>, the first line after the block that is not a comment, and that line
  is dropped: the sentinel is the integer of the line after it, \<open>sent\<close>. When \<open>sent\<close>
  is not an integer the call ends with the \<^verbatim>\<open>ValueError\<close> of \<^verbatim>\<open>int()\<close>.
\<close>

theorem sentinel_is_line_after_stop:
  assumes "stream w filename True = Inr (concat (pre @ block @ [stop, sent]) @ payload)"
    and "\<forall>l \<in> set (pre @ block @ [stop, sent]). text_line l"
    and "\<forall>l \<in> set pre. \<not> is_comment l"
    and "block \<noteq> []" and "\<forall>l \<in> set block. is_comment l"
    and "\<not> is_comment stop"
  shows "line_after_block (concat (pre @ block @ [stop, sent]) @ payload) = Some stop
         \<and> import_pgm_metadata w filename True
             = (case py_int sent of
                  Inl e \<Rightarrow> ([OpenFile filename], Inl e)
                | Inr n \<Rightarrow>
                    ([OpenFile filename, CloseFile filename],
                     Inr (pgm_constants ((header_entries block)(''missingval'' \<mapsto> IntVal n)))))"
proof -
  have "parse_pgm_header (concat (pre @ block @ [stop, sent]) @ payload)
       = map_sum id (\<lambda>n. (header_entries block)(''missingval'' \<mapsto> IntVal n)) (py_int sent)"
    using assms(2-6) by (rule parse_pgm_header_sentinel)
  with assms(1)
  have "import_pgm_metadata w filename True
             = (case py_int sent of
                  Inl e \<Rightarrow> ([OpenFile filename], Inl e)
                | Inr n \<Rightarrow>
                    ([OpenFile filename, CloseFile filename],
                     Inr (pgm_constants ((header_entries block)(''missingval'' \<mapsto> IntVal n)))))"
    by (cases "py_int sent") (simp_all add: import_pgm_metadata_def io_defs)
  moreover have "line_after_block (concat (pre @ block @ [stop, sent]) @ payload) = Some stop"
    using assms(2-6) by (rule line_after_block_stop)
  ultimately show ?thesis
    by simp
qed

theorem sentinel_is_line_after_stop_witness:
  "line_after_block sentinel_stream = Some (''7'' @ [nl])
   \<and> fst (import_pgm_metadata sentinel_world ''composite.pgm.gz'' True)
       = [OpenFile ''composite.pgm.gz'', CloseFile ''composite.pgm.gz'']
   \<and> stored_sentinel (import_pgm_metadata sentinel_world ''composite.pgm.gz'' True)
       = Inr (Some (IntVal 255))"
proof -
  have int: "py_int (''255'' @ [nl]) = Inr 255"
    by (simp add: str_defs)
  then have int': "py_int [CHR ''2'', CHR ''5'', CHR ''5'', nl] = Inr 255"
    by simp
  have lines: "\<forall>l \<in> set ([''P5'' @ [nl]] @ [''# type stereographic'' @ [nl]]
                          @ [''7'' @ [nl], ''255'' @ [nl]]). text_line l"
    by (simp add: text_line_def ascii_def)
  have s: "sentinel_stream = concat ([''P5'' @ [nl]] @ [''# type stereographic'' @ [nl]]
                             @ [''7'' @ [nl], ''255'' @ [nl]]) @ [CHR 0xFF]"
    by (simp add: sentinel_stream_def)
  have st: "stream sentinel_world ''composite.pgm.gz'' True = Inr sentinel_stream"
    by (simp add: sentinel_world_def example_world_def)
  have pre: "\<forall>l \<in> set [''P5'' @ [nl]]. \<not> is_comment l"
    and block: "[''# type stereographic'' @ [nl]] \<noteq> []"
      "\<forall>l \<in> set [''# type stereographic'' @ [nl]]. is_comment l"
    and stop: "\<not> is_comment (''7'' @ [nl])"
    by (simp_all add: is_comment_def)
  from sentinel_is_line_after_stop [OF st [unfolded s] lines pre block stop, folded s]
  show ?thesis
    by (simp add: int' stored_sentinel_def pgm_constants_def)
qed

text \<open>
  Claim C7, as stated, fails: in the stream \<^verbatim>\<open>P5\<close>, \<^verbatim>\<open># type stereographic\<close>, \<^verbatim>\<open>7\<close>,
  \<^verbatim>\<open>255\<close> the first line after the comment block that is not a comment is \<^verbatim>\<open>7\<close>, which
  reads as the integer 7, and the sentinel that the extraction stores is 255.
\<close>

theorem sentinel_not_first_line_after_block:
  "line_after_block sentinel_stream = Some (''7'' @ [nl])
   \<and> py_int (''7'' @ [nl]) = Inr 7
   \<and> stored_sentinel (import_pgm_metadata sentinel_world ''composite.pgm.gz'' True)
       = Inr (Some (IntVal 255))
   \<and> stored_sentinel (import_pgm_metadata sentinel_world ''composite.pgm.gz'' True)
       \<noteq> Inr (Some (IntVal 7))"
proof -
  have "lines_of sentinel_stream
          = [''P5'' @ [nl], ''# type stereographic'' @ [nl], ''7'' @ [nl], ''255'' @ [nl],
             [CHR 0xFF]]"
    by (simp add: sentinel_stream_def)
  then have "line_after_block sentinel_stream = Some (''7'' @ [nl])"
    by (simp add: line_after_block_def is_comment_def)
  moreover have "py_int (''7'' @ [nl]) = Inr 7"
    by (simp add: str_defs)
  moreover have "parse_pgm_header sentinel_stream
                   = Inr ([''type'' \<mapsto> StrList [''stereographic''], ''missingval'' \<mapsto> IntVal 255])"
    by (simp add: sentinel_stream_def parse_pgm_header_def str_defs)
  then have "stored_sentinel (import_pgm_metadata sentinel_world ''composite.pgm.gz'' True)
               = Inr (Some (IntVal 255))"
    by (simp add: stored_sentinel_def sentinel_world_def example_world_def
        import_pgm_metadata_def pgm_constants_def io_defs)
  ultimately show ?thesis
    by simp
qed

end
